theory Spec2Isabelle
  imports Complex_Main "HOL-Library.List_Lexorder" "HOL-Library.Char_ord" "HOL-Library.Multiset"
begin

section \<open>Slicer metrics extraction (slice\_with\_prusa.py)\<close>

text \<open>
  Python floats are modelled as exact reals: sums, differences, products and quotients
  carry no binary rounding error. The two-argument \<open>round(x, 1)\<close> is modelled as
  rounding to the nearest tenth, ties to the even tenth.
\<close>

definition round_half_even :: "real \<Rightarrow> int" where
  "round_half_even x =
     (let f = \<lfloor>x\<rfloor>; d = x - of_int f
      in if d < 1 / 2 then f
         else if 1 / 2 < d then f + 1
         else if even f then f else f + 1)"

definition py_round1 :: "real \<Rightarrow> real" where
  "py_round1 x = of_int (round_half_even (x * 10)) / 10"

subsection \<open>Values returned by extract\_config\_value\<close>

text \<open>
  \<open>extract_config_value\<close> returns \<open>True\<close>/\<open>False\<close>, a float, or the raw string when
  the float conversion fails. The three tests the caller makes on such a value are its
  truthiness, \<open>isinstance(v, (int, float)) and v > 0\<close> (a Python \<open>bool\<close> is an \<open>int\<close>),
  and its use as a factor.
\<close>

datatype cfg_value = CBool bool | CFloat real | CStr string

fun cfg_truthy :: "cfg_value \<Rightarrow> bool" where
  "cfg_truthy (CBool b) = b"
| "cfg_truthy (CFloat x) = (x \<noteq> 0)"
| "cfg_truthy (CStr s) = (s \<noteq> [])"

fun positive_number :: "cfg_value \<Rightarrow> bool" where
  "positive_number (CBool b) = b"
| "positive_number (CFloat x) = (0 < x)"
| "positive_number (CStr s) = False"

fun cfg_num :: "cfg_value \<Rightarrow> real" where
  "cfg_num (CBool b) = (if b then 1 else 0)"
| "cfg_num (CFloat x) = x"
| "cfg_num (CStr s) = 0"

subsection \<open>Messages printed by the extractor\<close>

datatype msg =
    ErrFileNotFound
  | ErrConfigNotFound
  | ErrSlicerWithSupports int
  | ErrSlicerWithoutSupports int
  | ErrException
  | ErrWriteStats
  | WarnGcodeParse
  | WarnZeroWeight
  | WarnSupportWeight
  | WarnInvalidCost
  | WarnCleanup

fun is_error :: "msg \<Rightarrow> bool" where
  "is_error ErrFileNotFound = True"
| "is_error ErrConfigNotFound = True"
| "is_error (ErrSlicerWithSupports rc) = True"
| "is_error (ErrSlicerWithoutSupports rc) = True"
| "is_error ErrException = True"
| "is_error ErrWriteStats = True"
| "is_error m = False"

subsection \<open>extract\_metrics\<close>

text \<open>
  The regular-expression searches are library calls; their results are inputs of the
  model. A weight match captures \<open>\d+\.?\d*\<close>, given here as the digits read as a
  natural number together with the count of digits after the point, so the parsed
  float is \<open>n / 10 ^ k\<close>. A time match captures up to three optional digit groups.
\<close>

type_synonym time_groups = "nat option \<times> nat option \<times> nat option"

record run_io =
  gcode_exists :: bool
  gcode_read_ok :: bool
  weight_match :: "(nat \<times> nat) option"
  time_match_gcode :: "time_groups option"
  size_match :: "(real \<times> real \<times> real) option"
  time_match_output :: "time_groups option"

record extracted =
  em_dimensions_mm :: "(real \<times> real \<times> real) option"
  em_weight_g :: real
  em_print_time :: string

definition float_of_match :: "nat \<times> nat \<Rightarrow> real" where
  "float_of_match d = real (fst d) / 10 ^ snd d"

fun digit_char :: "nat \<Rightarrow> char" where
  "digit_char n = char_of (48 + n)"

fun str_of_nat :: "nat \<Rightarrow> string" where
  "str_of_nat n =
     (if n < 10 then [digit_char n]
      else str_of_nat (n div 10) @ [digit_char (n mod 10)])"

declare str_of_nat.simps [simp del]

fun join_space :: "string list \<Rightarrow> string" where
  "join_space [] = []"
| "join_space [s] = s"
| "join_space (s # t # ss) = s @ '' '' @ join_space (t # ss)"

definition group_int :: "nat option \<Rightarrow> nat" where
  "group_int g = (case g of None \<Rightarrow> 0 | Some n \<Rightarrow> n)"

definition time_parts :: "nat \<Rightarrow> nat \<Rightarrow> nat \<Rightarrow> string list" where
  "time_parts h m s =
     (if 0 < h then [str_of_nat h @ ''h''] else []) @
     (if 0 < m then [str_of_nat m @ ''m''] else []) @
     (if 0 < s then [str_of_nat s @ ''s''] else [])"

definition apply_time :: "time_groups option \<Rightarrow> extracted \<Rightarrow> extracted" where
  "apply_time tm x =
     (case tm of
        None \<Rightarrow> x
      | Some (gh, gm, gs) \<Rightarrow>
          (let h = group_int gh; m = group_int gm; s = group_int gs
           in if 0 < h \<or> 0 < m \<or> 0 < s
              then x\<lparr>em_print_time := join_space (time_parts h m s)\<rparr>
              else x))"

definition metrics_init :: extracted where
  "metrics_init = \<lparr>em_dimensions_mm = None, em_weight_g = 0, em_print_time = ''Unknown''\<rparr>"

text \<open>
  The body of the \<open>try\<close> over the G-code file. It yields the dictionary, the value of
  the variable \<open>weight_match\<close> afterwards, and the warning of the \<open>except\<close> clause.
  \<open>weight_match.group(1)\<close> is evaluated with no test of the match, so a failed search
  raises before the weight and the time are stored.
\<close>

definition gcode_parsing :: "run_io \<Rightarrow> extracted \<times> (nat \<times> nat) option \<times> msg list" where
  "gcode_parsing io =
     (if gcode_exists io then
        (if \<not> gcode_read_ok io then (metrics_init, None, [WarnGcodeParse])
         else case weight_match io of
            None \<Rightarrow> (metrics_init, None, [WarnGcodeParse])
          | Some d \<Rightarrow>
              (apply_time (time_match_gcode io)
                 (metrics_init\<lparr>em_weight_g := float_of_match d\<rparr>), Some d, []))
      else (metrics_init, None, []))"

definition extract_metrics :: "run_io \<Rightarrow> extracted \<times> msg list" where
  "extract_metrics io =
     (case gcode_parsing io of (m1, wm, log1) \<Rightarrow>
        (let m2 = (case size_match io of
                     Some d \<Rightarrow> m1\<lparr>em_dimensions_mm := Some d\<rparr>
                   | None \<Rightarrow> m1);
             m3 = (if em_print_time m2 = ''Unknown''
                   then apply_time (time_match_output io) m2 else m2);
             log2 = (if em_weight_g m3 = 0 \<and> wm = None \<and> gcode_exists io
                     then [WarnZeroWeight] else [])
         in (m3, log1 @ log2)))"

subsection \<open>slice\_with\_prusa\<close>

text \<open>
  The metrics dictionary. \<open>dimensions_mm\<close> holds the three numbers that the code
  renders as \<open>X.XX x Y.YY x Z.ZZ\<close>; the rendering itself is not modelled.
\<close>

record metrics =
  part_name :: string
  dimensions_mm :: "(real \<times> real \<times> real) option"
  object_weight_g :: real
  supports_weight_g :: real
  total_weight_g :: real
  print_time :: string
  price_egp :: real
  print_settings :: string
  object_weight_kg :: real
  supports_weight_kg :: real
  total_weight_kg :: real

text \<open>
  What \<open>subprocess.run\<close> did: it raised (for instance the executable is missing), or
  it returned with an exit code, leaving the console output and the G-code file that
  \<open>extract_metrics\<close> reads.
\<close>

datatype run_result = RunRaised | RunExit int run_io

text \<open>
  The environment of one call: what the file system answers, what
  \<open>extract_config_value\<close> found in the configuration, and what the two slicer runs did.
  \<open>stats_dir_ok\<close> is \<open>os.makedirs(stats_dir)\<close> not raising; \<open>config_io_ok\<close> covers
  reading the configuration and writing the two temporary variants.
\<close>

record env =
  step_exists :: bool
  base_name :: string
  stats_dir_ok :: bool
  config_exists :: bool
  config_io_ok :: bool
  filament_cost_per_kg :: cfg_value
  supports_enabled :: cfg_value
  slicer_settings :: string
  run_with :: run_result
  run_without :: run_result
  write_ok :: bool
  cleanup_ok :: bool

text \<open>
  The outcome: the returned value (\<open>None\<close> for Python's \<open>None\<close>), the dictionary dumped
  to the stats file if one was written, and the messages printed, in order.
\<close>

record outcome =
  ret :: "metrics option"
  stats_file :: "metrics option"
  printed :: "msg list"

definition failed :: "msg list \<Rightarrow> outcome" where
  "failed ms = \<lparr>ret = None, stats_file = None, printed = ms\<rparr>"

definition initial_metrics :: "env \<Rightarrow> metrics" where
  "initial_metrics e =
     \<lparr>part_name = base_name e, dimensions_mm = None, object_weight_g = 0,
      supports_weight_g = 0, total_weight_g = 0, print_time = ''Unknown'',
      price_egp = 0, print_settings = slicer_settings e, object_weight_kg = 0,
      supports_weight_kg = 0, total_weight_kg = 0\<rparr>"

text \<open>
  First slice, made only when \<open>supports_enabled\<close> is truthy. \<open>Inl\<close> carries the messages
  of a run that returns \<open>None\<close>. The dictionary returned by \<open>extract_metrics\<close> is never
  empty, so the \<open>else\<close> of \<open>if with_supports_metrics\<close> is not reachable.
\<close>

definition slice_with_supports :: "env \<Rightarrow> metrics \<Rightarrow> msg list + metrics \<times> msg list" where
  "slice_with_supports e m =
     (if cfg_truthy (supports_enabled e) then
        (case run_with e of
           RunRaised \<Rightarrow> Inl [ErrException]
         | RunExit rc io \<Rightarrow>
             if rc \<noteq> 0 then Inl [ErrSlicerWithSupports rc]
             else (case extract_metrics io of (x, ws) \<Rightarrow>
                     Inr (m\<lparr>total_weight_g := em_weight_g x,
                            print_time := em_print_time x,
                            dimensions_mm := em_dimensions_mm x\<rparr>, ws)))
      else Inr (m, []))"

text \<open>Second slice, always made.\<close>

definition slice_without_supports :: "env \<Rightarrow> metrics \<Rightarrow> msg list + metrics \<times> msg list" where
  "slice_without_supports e m =
     (case run_without e of
        RunRaised \<Rightarrow> Inl [ErrException]
      | RunExit rc io \<Rightarrow>
          if rc \<noteq> 0 then Inl [ErrSlicerWithoutSupports rc]
          else (case extract_metrics io of (x, ws) \<Rightarrow>
                  Inr (m\<lparr>object_weight_g := em_weight_g x,
                         dimensions_mm :=
                           (if dimensions_mm m = None then em_dimensions_mm x
                            else dimensions_mm m)\<rparr>, ws)))"

text \<open>The support weight by subtraction (the block headed CALCULATIONS).\<close>

definition calculations :: "env \<Rightarrow> metrics \<Rightarrow> metrics \<times> msg list" where
  "calculations e m =
     (if cfg_truthy (supports_enabled e) then
        (if 0 \<le> total_weight_g m \<and> 0 \<le> object_weight_g m
         then (m\<lparr>supports_weight_g := max 0 (total_weight_g m - object_weight_g m)\<rparr>, [])
         else (m\<lparr>supports_weight_g := 0\<rparr>, [WarnSupportWeight]))
      else (m\<lparr>total_weight_g := object_weight_g m, supports_weight_g := 0\<rparr>, []))"

text \<open>
  Kilograms and price. The three local weights are rounded to one decimal; the
  dictionary keeps the unrounded gram values and receives the kilogram values of the
  rounded ones.
\<close>

definition pricing :: "env \<Rightarrow> metrics \<Rightarrow> metrics \<times> msg list" where
  "pricing e m =
     (let total_g = py_round1 (total_weight_g m);
          object_g = py_round1 (object_weight_g m);
          supports_g = py_round1 (supports_weight_g m);
          m1 = m\<lparr>total_weight_kg := total_g / 1000,
                 object_weight_kg := object_g / 1000,
                 supports_weight_kg := supports_g / 1000\<rparr>
      in if positive_number (filament_cost_per_kg e)
         then (m1\<lparr>price_egp :=
                     py_round1 (total_weight_kg m1 * cfg_num (filament_cost_per_kg e))\<rparr>, [])
         else (m1\<lparr>price_egp := 0\<rparr>, [WarnInvalidCost]))"

text \<open>Writing the stats file, removing the temporary files, returning the dictionary.\<close>

definition persist :: "env \<Rightarrow> metrics \<Rightarrow> msg list \<Rightarrow> outcome" where
  "persist e m ms =
     \<lparr>ret = Some m,
      stats_file = (if write_ok e then Some m else None),
      printed = ms @ (if write_ok e then [] else [ErrWriteStats])
                   @ (if cleanup_ok e then [] else [WarnCleanup])\<rparr>"

definition slice_with_prusa :: "env \<Rightarrow> outcome" where
  "slice_with_prusa e =
     (if \<not> step_exists e then failed [ErrFileNotFound]
      else if \<not> stats_dir_ok e then failed [ErrException]
      else if \<not> config_exists e then failed [ErrConfigNotFound]
      else if \<not> config_io_ok e then failed [ErrException]
      else case slice_with_supports e (initial_metrics e) of
         Inl ms \<Rightarrow> failed ms
       | Inr (m1, ws1) \<Rightarrow>
           (case slice_without_supports e m1 of
              Inl ms \<Rightarrow> failed (ws1 @ ms)
            | Inr (m2, ws2) \<Rightarrow>
                (case calculations e m2 of (m3, ws3) \<Rightarrow>
                   (case pricing e m3 of (m4, ws4) \<Rightarrow>
                      persist e m4 (ws1 @ ws2 @ ws3 @ ws4)))))"

subsection \<open>Predicates and example inputs for the extractor\<close>

definition setup_ok :: "env \<Rightarrow> bool" where
  "setup_ok e = (step_exists e \<and> stats_dir_ok e \<and> config_exists e \<and> config_io_ok e)"

fun exit_zero :: "run_result \<Rightarrow> bool" where
  "exit_zero RunRaised = False"
| "exit_zero (RunExit rc io) = (rc = 0)"

definition no_fatal :: "env \<Rightarrow> bool" where
  "no_fatal e =
     (setup_ok e \<and> (cfg_truthy (supports_enabled e) \<longrightarrow> exit_zero (run_with e)) \<and>
      exit_zero (run_without e))"

definition no_weight :: "run_io \<Rightarrow> bool" where
  "no_weight io = (\<not> gcode_exists io \<or> \<not> gcode_read_ok io \<or> weight_match io = None)"

definition io_weight :: "(nat \<times> nat) option \<Rightarrow> run_io" where
  "io_weight w =
     \<lparr>gcode_exists = True, gcode_read_ok = True, weight_match = w,
      time_match_gcode = None, size_match = None,
      time_match_output = None\<rparr>"

definition io_no_gcode :: run_io where
  "io_no_gcode =
     \<lparr>gcode_exists = False, gcode_read_ok = False, weight_match = None,
      time_match_gcode = None, size_match = None, time_match_output = None\<rparr>"

definition env_of :: "cfg_value \<Rightarrow> cfg_value \<Rightarrow> run_result \<Rightarrow> run_result \<Rightarrow> bool \<Rightarrow> env" where
  "env_of cost spt rw ro wr =
     \<lparr>step_exists = True, base_name = ''part'', stats_dir_ok = True, config_exists = True,
      config_io_ok = True, filament_cost_per_kg = cost, supports_enabled = spt,
      slicer_settings = ''0.2mm layer'', run_with = rw, run_without = ro,
      write_ok = wr, cleanup_ok = True\<rparr>"


definition env_clamp :: env where
  "env_clamp = env_of (CFloat 2500) (CBool True)
     (RunExit 0 (io_weight (Some (50, 1)))) (RunExit 0 (io_weight (Some (60, 1)))) True"

definition env_supports :: env where
  "env_supports = env_of (CFloat 2500) (CBool True)
     (RunExit 0 (io_weight (Some (125, 1)))) (RunExit 0 (io_weight (Some (10, 0)))) True"





definition env_slicer_fails :: env where
  "env_slicer_fails = env_of (CFloat 2500) (CBool True)
     (RunExit 0 (io_weight (Some (125, 1)))) (RunExit 1 (io_weight (Some (10, 0)))) True"


definition io_time_only :: run_io where
  "io_time_only =
     \<lparr>gcode_exists = True, gcode_read_ok = True, weight_match = None,
      time_match_gcode = Some (Some 2, Some 15, None), size_match = None,
      time_match_output = None\<rparr>"

section \<open>BOM aggregation (generate\_bom.py)\<close>

subsection \<open>Values decoded by json.load\<close>

text \<open>
  A decoded document. An object is the list of its items, as the dictionary built by
  \<open>json.load\<close> holds them: each key once. Numbers are exact reals.
\<close>

datatype json =
    JNull
  | JBool bool
  | JNum real
  | JStr string
  | JArr "json list"
  | JObj "(string \<times> json) list"

datatype py_exn = AttributeError | TypeError | ValueError

text \<open>
  Two built-ins of Python that the aggregator calls are parameters of the model:
  \<open>float\<close> applied to a \<open>str\<close> (\<open>None\<close> when it raises \<open>ValueError\<close>), and \<open><\<close> between
  two lists.
\<close>

record builtins =
  str_to_float :: "string \<Rightarrow> real option"
  list_lt :: "json list \<Rightarrow> json list \<Rightarrow> py_exn + bool"

fun truthy :: "json \<Rightarrow> bool" where
  "truthy JNull = False"
| "truthy (JBool b) = b"
| "truthy (JNum x) = (x \<noteq> 0)"
| "truthy (JStr s) = (s \<noteq> [])"
| "truthy (JArr xs) = (xs \<noteq> [])"
| "truthy (JObj kvs) = (kvs \<noteq> [])"

text \<open>\<open>v or 0\<close>\<close>

definition or_zero :: "json \<Rightarrow> json" where
  "or_zero v = (if truthy v then v else JNum 0)"

text \<open>\<open>float(v)\<close>\<close>

fun py_float :: "builtins \<Rightarrow> json \<Rightarrow> py_exn + real" where
  "py_float B (JNum x) = Inr x"
| "py_float B (JBool b) = Inr (if b then 1 else 0)"
| "py_float B (JStr s) = (case str_to_float B s of None \<Rightarrow> Inl ValueError | Some x \<Rightarrow> Inr x)"
| "py_float B JNull = Inl TypeError"
| "py_float B (JArr xs) = Inl TypeError"
| "py_float B (JObj kvs) = Inl TypeError"

text \<open>\<open>k in s\<close> for two strings: \<open>k\<close> occurs in \<open>s\<close> as a contiguous run.\<close>

fun substring_of :: "string \<Rightarrow> string \<Rightarrow> bool" where
  "substring_of k [] = (k = [])"
| "substring_of k (c # s) = (take (length k) (c # s) = k \<or> substring_of k s)"

text \<open>
  \<open>k in metrics\<close> for a string \<open>k\<close>: key membership in a dictionary, element membership
  in a list, substring test in a string, \<open>TypeError\<close> for a number, a boolean or \<open>None\<close>.
\<close>

fun contains :: "string \<Rightarrow> json \<Rightarrow> py_exn + bool" where
  "contains k (JObj kvs) = Inr (k \<in> set (map fst kvs))"
| "contains k (JArr xs) = Inr (JStr k \<in> set xs)"
| "contains k (JStr s) = Inr (substring_of k s)"
| "contains k v = Inl TypeError"

text \<open>\<open>all(k in metrics for k in ks)\<close>, left to right, stopping at the first \<open>False\<close>.\<close>

fun all_in :: "string list \<Rightarrow> json \<Rightarrow> py_exn + bool" where
  "all_in [] v = Inr True"
| "all_in (k # ks) v =
     (case contains k v of
        Inl e \<Rightarrow> Inl e
      | Inr False \<Rightarrow> Inr False
      | Inr True \<Rightarrow> all_in ks v)"

definition required_keys :: "string list" where
  "required_keys = [''part_name'', ''total_weight_g'', ''price_egp'']"

text \<open>\<open>metrics.get(k, d)\<close>: only a dictionary has the method.\<close>

fun py_get :: "json \<Rightarrow> string \<Rightarrow> json \<Rightarrow> py_exn + json" where
  "py_get (JObj kvs) k d = Inr (case map_of kvs k of None \<Rightarrow> d | Some v \<Rightarrow> v)"
| "py_get v k d = Inl AttributeError"

subsection \<open>The loop over the statistics files\<close>

text \<open>
  What opening and decoding one candidate file gives: \<open>open\<close> raises an \<open>OSError\<close>, the
  bytes are not text (\<open>UnicodeDecodeError\<close>, a \<open>ValueError\<close>), the text is not JSON, or a
  document.
\<close>

datatype file_content = Unreadable | Undecodable | InvalidJson | Parsed json

datatype bom_msg =
    WarnMissingKeys
  | WarnInvalidJson
  | WarnInvalidNumeric
  | WarnFailed
  | NoFilesInDirectory
  | NotAJsonFile
  | NotAPath
  | NoValidData
  | ErrMakeDir
  | ErrGenerateBom
  | ErrCsv
  | SkipPdf

record agg =
  parts_data :: "json list"
  total_cost :: real
  total_weight :: real
  warnings :: "bom_msg list"

definition agg_init :: agg where
  "agg_init = \<lparr>parts_data = [], total_cost = 0, total_weight = 0, warnings = []\<rparr>"

definition warn :: "bom_msg \<Rightarrow> agg \<Rightarrow> agg" where
  "warn w st = st\<lparr>warnings := warnings st @ [w]\<rparr>"

text \<open>
  The two additions after \<open>parts_data.append(metrics)\<close>. The price is converted and
  added first; an exception there leaves the weight out as well.
\<close>

definition add_totals :: "builtins \<Rightarrow> json \<Rightarrow> agg \<Rightarrow> agg" where
  "add_totals B m st =
     (case py_get m ''price_egp'' JNull of
        Inl e \<Rightarrow> warn WarnFailed st
      | Inr pv \<Rightarrow>
          (case py_float B (or_zero pv) of
             Inl e \<Rightarrow> warn WarnInvalidNumeric st
           | Inr p \<Rightarrow>
               (let st1 = st\<lparr>total_cost := total_cost st + p\<rparr>
                in case py_get m ''total_weight_g'' JNull of
                     Inl e \<Rightarrow> warn WarnFailed st1
                   | Inr wv \<Rightarrow>
                       (case py_float B (or_zero wv) of
                          Inl e \<Rightarrow> warn WarnInvalidNumeric st1
                        | Inr w \<Rightarrow> st1\<lparr>total_weight := total_weight st1 + w\<rparr>))))"

text \<open>One iteration of the loop, with its three \<open>except\<close> clauses.\<close>

fun process_file :: "builtins \<Rightarrow> agg \<Rightarrow> file_content \<Rightarrow> agg" where
  "process_file B st Unreadable = warn WarnFailed st"
| "process_file B st Undecodable = warn WarnInvalidNumeric st"
| "process_file B st InvalidJson = warn WarnInvalidJson st"
| "process_file B st (Parsed m) =
     (case all_in required_keys m of
        Inl e \<Rightarrow> warn WarnInvalidNumeric st
      | Inr False \<Rightarrow> warn WarnMissingKeys st
      | Inr True \<Rightarrow> add_totals B m (st\<lparr>parts_data := parts_data st @ [m]\<rparr>))"

fun process_files :: "builtins \<Rightarrow> agg \<Rightarrow> file_content list \<Rightarrow> agg" where
  "process_files B st [] = st"
| "process_files B st (f # fs) = process_files B (process_file B st f) fs"

subsection \<open>Sorting by part name\<close>

text \<open>
  \<open>parts_data.sort(key=lambda x: x.get("part_name", ""))\<close>. The keys are computed for
  every element first; then the elements are ordered by \<open><\<close> on the keys, stably.
  \<open><\<close> is defined between two strings (character by character), between two numbers
  (a boolean counts as 0 or 1) and between two lists; any other pair raises \<open>TypeError\<close>.
\<close>

definition sort_key_of :: "json \<Rightarrow> py_exn + json" where
  "sort_key_of x = py_get x ''part_name'' (JStr [])"

fun is_number :: "json \<Rightarrow> bool" where
  "is_number (JNum x) = True"
| "is_number (JBool b) = True"
| "is_number v = False"

fun number_of :: "json \<Rightarrow> real" where
  "number_of (JNum x) = x"
| "number_of (JBool b) = (if b then 1 else 0)"
| "number_of v = 0"

fun py_lt :: "builtins \<Rightarrow> json \<Rightarrow> json \<Rightarrow> py_exn + bool" where
  "py_lt B (JStr a) (JStr b) = Inr (a < b)"
| "py_lt B (JArr a) (JArr b) = list_lt B a b"
| "py_lt B a b = (if is_number a \<and> is_number b then Inr (number_of a < number_of b)
                  else Inl TypeError)"

fun keys_of :: "json list \<Rightarrow> py_exn + (json \<times> json) list" where
  "keys_of [] = Inr []"
| "keys_of (x # xs) =
     (case sort_key_of x of
        Inl e \<Rightarrow> Inl e
      | Inr k \<Rightarrow> (case keys_of xs of Inl e \<Rightarrow> Inl e | Inr r \<Rightarrow> Inr ((k, x) # r)))"

text \<open>
  The stable sort, as insertion from the right: an element goes in front of the first
  element of the sorted rest that is not smaller than it. A single element is compared
  with nothing. Python's \<open>list.sort\<close> makes its comparisons in another order; the result
  is the same whenever no comparison raises, and so is the raising itself when the keys
  are strings, numbers, \<open>None\<close> or dictionaries.
\<close>

fun insert_sorted :: "builtins \<Rightarrow> json \<times> json \<Rightarrow> (json \<times> json) list \<Rightarrow> py_exn + (json \<times> json) list" where
  "insert_sorted B p [] = Inr [p]"
| "insert_sorted B p (q # r) =
     (case py_lt B (fst q) (fst p) of
        Inl e \<Rightarrow> Inl e
      | Inr True \<Rightarrow> (case insert_sorted B p r of Inl e \<Rightarrow> Inl e | Inr r' \<Rightarrow> Inr (q # r'))
      | Inr False \<Rightarrow> Inr (p # q # r))"

fun sort_keyed :: "builtins \<Rightarrow> (json \<times> json) list \<Rightarrow> py_exn + (json \<times> json) list" where
  "sort_keyed B [] = Inr []"
| "sort_keyed B (p # ps) =
     (case sort_keyed B ps of Inl e \<Rightarrow> Inl e | Inr r \<Rightarrow> insert_sorted B p r)"

definition sort_parts :: "builtins \<Rightarrow> json list \<Rightarrow> py_exn + json list" where
  "sort_parts B parts =
     (case keys_of parts of
        Inl e \<Rightarrow> Inl e
      | Inr ks \<Rightarrow> (case sort_keyed B ks of Inl e \<Rightarrow> Inl e | Inr r \<Rightarrow> Inr (map snd r)))"

subsection \<open>The CSV file\<close>

text \<open>
  One row per part. The four numeric cells are \<open>float(part.get(k) or 0)\<close>, kept here as
  numbers; their rendering with four or two decimals is not modelled.
\<close>

record csv_row =
  row_name :: json
  row_object_weight :: real
  row_supports_weight :: real
  row_total_weight :: real
  row_price :: real
  row_dimensions :: json
  row_print_time :: json
  row_print_settings :: json

definition float_field :: "builtins \<Rightarrow> json \<Rightarrow> string \<Rightarrow> py_exn + real" where
  "float_field B part k =
     (case py_get part k JNull of Inl e \<Rightarrow> Inl e | Inr v \<Rightarrow> py_float B (or_zero v))"

definition text_field :: "json \<Rightarrow> string \<Rightarrow> string \<Rightarrow> json" where
  "text_field part k d = (case py_get part k (JStr d) of Inl e \<Rightarrow> JStr d | Inr v \<Rightarrow> v)"

definition make_row :: "builtins \<Rightarrow> json \<Rightarrow> py_exn + csv_row" where
  "make_row B part =
     (case py_get part ''part_name'' (JStr ''Unknown'') of
        Inl e \<Rightarrow> Inl e
      | Inr n \<Rightarrow>
     (case float_field B part ''object_weight_g'' of
        Inl e \<Rightarrow> Inl e
      | Inr ow \<Rightarrow>
     (case float_field B part ''supports_weight_g'' of
        Inl e \<Rightarrow> Inl e
      | Inr sw \<Rightarrow>
     (case float_field B part ''total_weight_g'' of
        Inl e \<Rightarrow> Inl e
      | Inr tw \<Rightarrow>
     (case float_field B part ''price_egp'' of
        Inl e \<Rightarrow> Inl e
      | Inr pr \<Rightarrow>
          Inr \<lparr>row_name = n, row_object_weight = ow, row_supports_weight = sw,
               row_total_weight = tw, row_price = pr,
               row_dimensions = text_field part ''dimensions_mm'' ''N/A'',
               row_print_time = text_field part ''print_time'' ''N/A'',
               row_print_settings = text_field part ''print_settings'' ''N/A''\<rparr>)))))"

text \<open>
  The rows written before the first part whose row raises, and whether every row was
  written.
\<close>

fun write_rows :: "builtins \<Rightarrow> json list \<Rightarrow> csv_row list \<times> bool" where
  "write_rows B [] = ([], True)"
| "write_rows B (p # ps) =
     (case make_row B p of
        Inl e \<Rightarrow> ([], False)
      | Inr r \<Rightarrow> (case write_rows B ps of (rs, ok) \<Rightarrow> (r # rs, ok)))"

text \<open>
  The file left behind: the rows, and the summary row (part count, total weight, total
  cost) when it was reached.
\<close>

record csv_file =
  csv_rows :: "csv_row list"
  csv_summary :: "(nat \<times> real \<times> real) option"

definition generate_csv_bom :: "builtins \<Rightarrow> bool \<Rightarrow> json list \<Rightarrow> real \<Rightarrow> real \<Rightarrow> bool \<times> csv_file option" where
  "generate_csv_bom B open_ok parts tc tw =
     (if \<not> open_ok then (False, None)
      else case write_rows B parts of
        (rs, ok) \<Rightarrow>
          (ok, Some \<lparr>csv_rows = rs,
                     csv_summary = (if ok then Some (length parts, tw, tc) else None)\<rparr>))"

subsection \<open>generate\_bom\<close>

text \<open>
  What the path given to \<open>generate_bom\<close> is: a directory with the contents of its
  \<open>*_stats.json\<close> files, a file whose name ends in \<open>.json\<close>, another file, or neither.
\<close>

datatype bom_input =
    Directory "file_content list"
  | JsonFile file_content
  | OtherFile
  | NoSuchPath

text \<open>
  The rest of the environment. \<open>bom_dir\<close> and \<open>bom_base_name\<close> are the folder and the
  timestamped base name that the code derives from the path and the clock.
  \<open>render_ok\<close> is the PDF library building the document without raising.
\<close>

record bom_env =
  bom_input_path :: bom_input
  bom_dir :: string
  bom_base_name :: string
  bom_dir_exists :: bool
  makedirs_ok :: bool
  csv_open_ok :: bool
  reportlab_available :: bool
  fpdf_available :: bool
  render_ok :: bool

type_synonym path = "string \<times> string"

record bom_outcome =
  bom_result :: "(path \<times> path option) option"
  bom_parts :: "json list"
  bom_total_cost :: real
  bom_total_weight :: real
  bom_csv :: "csv_file option"
  bom_printed :: "bom_msg list"

definition bom_failed :: "agg \<Rightarrow> bom_msg \<Rightarrow> bom_outcome" where
  "bom_failed st w =
     \<lparr>bom_result = None, bom_parts = parts_data st, bom_total_cost = total_cost st,
      bom_total_weight = total_weight st, bom_csv = None,
      bom_printed = warnings st @ [w]\<rparr>"

text \<open>
  Both PDF writers convert the same numeric fields as the CSV writer inside their own
  \<open>try\<close>, then build the document.
\<close>

definition pdf_generated :: "builtins \<Rightarrow> bom_env \<Rightarrow> json list \<Rightarrow> bool" where
  "pdf_generated B e parts =
     (if reportlab_available e then snd (write_rows B parts) \<and> render_ok e
      else if fpdf_available e then snd (write_rows B parts) \<and> render_ok e
      else False)"

definition stats_files :: "bom_input \<Rightarrow> bom_msg + file_content list" where
  "stats_files i =
     (case i of
        Directory fs \<Rightarrow> if fs = [] then Inl NoFilesInDirectory else Inr fs
      | JsonFile f \<Rightarrow> Inr [f]
      | OtherFile \<Rightarrow> Inl NotAJsonFile
      | NoSuchPath \<Rightarrow> Inl NotAPath)"

definition write_reports :: "builtins \<Rightarrow> bom_env \<Rightarrow> agg \<Rightarrow> json list \<Rightarrow> bom_outcome" where
  "write_reports B e st parts =
     (case generate_csv_bom B (csv_open_ok e) parts (total_cost st) (total_weight st) of
        (csv_ok, file) \<Rightarrow>
          \<lparr>bom_result =
             Some ((bom_dir e, bom_base_name e @ ''.csv''),
                   if pdf_generated B e parts
                   then Some (bom_dir e, bom_base_name e @ ''.pdf'') else None),
           bom_parts = parts, bom_total_cost = total_cost st,
           bom_total_weight = total_weight st, bom_csv = file,
           bom_printed = warnings st @ (if csv_ok then [] else [ErrCsv])
             @ (if \<not> reportlab_available e \<and> \<not> fpdf_available e then [SkipPdf] else [])\<rparr>)"

definition generate_bom :: "builtins \<Rightarrow> bom_env \<Rightarrow> bom_outcome" where
  "generate_bom B e =
     (case stats_files (bom_input_path e) of
        Inl w \<Rightarrow> bom_failed agg_init w
      | Inr fs \<Rightarrow>
          (let st = process_files B agg_init fs
           in if parts_data st = [] then bom_failed st NoValidData
              else case sort_parts B (parts_data st) of
                 Inl ex \<Rightarrow> bom_failed st ErrGenerateBom
               | Inr parts \<Rightarrow>
                   if \<not> bom_dir_exists e \<and> \<not> makedirs_ok e then bom_failed st ErrMakeDir
                   else write_reports B e st parts))"

subsection \<open>Predicates and example inputs for the aggregator\<close>





definition candidates :: "bom_env \<Rightarrow> file_content list" where
  "candidates e = (case stats_files (bom_input_path e) of Inl w \<Rightarrow> [] | Inr fs \<Rightarrow> fs)"

definition survivors :: "builtins \<Rightarrow> bom_env \<Rightarrow> json list" where
  "survivors B e = parts_data (process_files B agg_init (candidates e))"

definition part :: "string \<Rightarrow> json \<Rightarrow> json \<Rightarrow> json" where
  "part n w p = JObj [(''part_name'', JStr n), (''total_weight_g'', w), (''price_egp'', p)]"

definition array_document :: json where
  "array_document = JArr [JStr ''part_name'', JStr ''total_weight_g'', JStr ''price_egp'']"

definition digits_only :: "string \<Rightarrow> real option" where
  "digits_only s =
     (if s \<noteq> [] \<and> list_all (\<lambda>c. CHR ''0'' \<le> c \<and> c \<le> CHR ''9'') s
      then Some (real (foldl (\<lambda>n c. 10 * n + (of_char c - 48)) 0 s)) else None)"

definition example_builtins :: builtins where
  "example_builtins = \<lparr>str_to_float = digits_only, list_lt = (\<lambda>a b. Inl TypeError)\<rparr>"

definition env_for :: "bom_input \<Rightarrow> bool \<Rightarrow> bool \<Rightarrow> bom_env" where
  "env_for i dir_exists can_make =
     \<lparr>bom_input_path = i, bom_dir = ''stats/BOM'', bom_base_name = ''BOM_stats_20250101_120000'',
      bom_dir_exists = dir_exists, makedirs_ok = can_make, csv_open_ok = True,
      reportlab_available = False, fpdf_available = False, render_ok = False\<rparr>"

text \<open>The documents that the loop appends, in order.\<close>

fun kept :: "file_content list \<Rightarrow> json list" where
  "kept [] = []"
| "kept (Parsed m # fs) = (if all_in required_keys m = Inr True then m # kept fs else kept fs)"
| "kept (f # fs) = kept fs"

definition converts :: "builtins \<Rightarrow> json \<Rightarrow> bool" where
  "converts B m = (\<not> isl (float_field B m ''price_egp'') \<and> \<not> isl (float_field B m ''total_weight_g''))"

definition price_of :: "builtins \<Rightarrow> json \<Rightarrow> real" where
  "price_of B m = (case float_field B m ''price_egp'' of Inl e \<Rightarrow> 0 | Inr p \<Rightarrow> p)"

definition weight_of :: "builtins \<Rightarrow> json \<Rightarrow> real" where
  "weight_of B m = (case float_field B m ''total_weight_g'' of Inl e \<Rightarrow> 0 | Inr w \<Rightarrow> w)"

definition bad_price_part :: json where
  "bad_price_part = part ''A'' (JNum 5) (JStr ''12,5'')"

definition part_a :: json where
  "part_a = part ''A'' (JNum 100) (JNum 25)"

definition part_b :: json where
  "part_b = part ''B'' (JNum 50) (JNum (25 / 2))"

definition unnamed_part :: json where
  "unnamed_part = JObj [(''total_weight_g'', JNum 1), (''price_egp'', JNum 1)]"

definition env_two_parts :: bom_env where
  "env_two_parts = env_for (Directory [Parsed part_b, Parsed part_a]) True True"

definition env_no_bom_dir :: bom_env where
  "env_no_bom_dir = env_for (Directory [Parsed part_a]) False False"

definition env_array :: bom_env where
  "env_array = env_for (Directory [Parsed array_document, Parsed part_a]) True True"

definition env_one_part :: bom_env where
  "env_one_part = env_for (Directory [Parsed part_a]) True True"

definition env_bad_price :: bom_env where
  "env_bad_price = env_for (Directory [Parsed bad_price_part]) True True"

definition env_names :: bom_env where
  "env_names = env_for (Directory [Parsed (part ''b'' (JNum 1) (JNum 1)),
     Parsed (part ''a'' (JNum 1) (JNum 1)), Parsed (part '''' (JNum 1) (JNum 1))]) True True"

definition bad_weight_part :: json where
  "bad_weight_part = part ''A'' (JArr [JNum 5]) (JNum 25)"

definition env_bad_weight :: bom_env where
  "env_bad_weight = env_for (Directory [Parsed bad_weight_part]) True True"

section \<open>Properties of the extractor\<close>

subsection \<open>Stage lemmas\<close>

lemma em_weight_nonneg: "0 \<le> em_weight_g (fst (extract_metrics io))"
  by (auto simp: extract_metrics_def gcode_parsing_def metrics_init_def apply_time_def
      float_of_match_def Let_def split: option.splits prod.splits if_splits)

lemma em_weight_nonneg': "extract_metrics io = (x, ws) \<Longrightarrow> 0 \<le> em_weight_g x"
  using em_weight_nonneg [of io] by simp

lemma pricing_keeps_weights:
  "pricing e m = (m', ws) \<Longrightarrow>
     total_weight_g m' = total_weight_g m \<and> object_weight_g m' = object_weight_g m \<and>
     supports_weight_g m' = supports_weight_g m"
  by (auto simp: pricing_def Let_def split: if_splits)


lemma calculations_weights:
  "calculations e m = (m', ws) \<Longrightarrow>
     object_weight_g m' = object_weight_g m \<and>
     (if cfg_truthy (supports_enabled e)
      then total_weight_g m' = total_weight_g m \<and>
           (0 \<le> total_weight_g m \<and> 0 \<le> object_weight_g m \<longrightarrow>
              supports_weight_g m' = max 0 (total_weight_g m - object_weight_g m))
      else total_weight_g m' = object_weight_g m \<and> supports_weight_g m' = 0)"
  by (auto simp: calculations_def split: if_splits)

text \<open>A run that returns a dictionary went through every stage.\<close>

lemma slice_with_prusa_Some:
  assumes "ret (slice_with_prusa e) = Some m"
  obtains m1 ws1 m2 ws2 m3 ws3 ws4 where
    "setup_ok e"
    "slice_with_supports e (initial_metrics e) = Inr (m1, ws1)"
    "slice_without_supports e m1 = Inr (m2, ws2)"
    "calculations e m2 = (m3, ws3)"
    "pricing e m3 = (m, ws4)"
    "slice_with_prusa e = persist e m (ws1 @ ws2 @ ws3 @ ws4)"
  using assms
  by (auto simp: slice_with_prusa_def setup_ok_def failed_def persist_def
      split: if_splits sum.splits prod.splits)

lemma slice_with_supports_weight:
  "slice_with_supports e m = Inr (m1, ws) \<Longrightarrow>
     0 \<le> total_weight_g m \<Longrightarrow> 0 \<le> total_weight_g m1"
  by (auto simp: slice_with_supports_def dest: em_weight_nonneg'
      split: if_splits run_result.splits prod.splits)

lemma slice_without_supports_weight:
  "slice_without_supports e m = Inr (m1, ws) \<Longrightarrow>
     0 \<le> object_weight_g m1 \<and> total_weight_g m1 = total_weight_g m"
  by (auto simp: slice_without_supports_def dest: em_weight_nonneg'
      split: if_splits run_result.splits prod.splits)

lemma recorded_weights:
  assumes "ret (slice_with_prusa e) = Some m"
  shows "0 \<le> object_weight_g m"
    and "cfg_truthy (supports_enabled e) \<Longrightarrow>
           0 \<le> total_weight_g m \<and>
           supports_weight_g m = max 0 (total_weight_g m - object_weight_g m)"
    and "\<not> cfg_truthy (supports_enabled e) \<Longrightarrow>
           total_weight_g m = object_weight_g m \<and> supports_weight_g m = 0"
proof -
  from assms obtain m1 ws1 m2 ws2 m3 ws3 ws4 where
    s1: "slice_with_supports e (initial_metrics e) = Inr (m1, ws1)" and
    s2: "slice_without_supports e m1 = Inr (m2, ws2)" and
    s3: "calculations e m2 = (m3, ws3)" and
    s4: "pricing e m3 = (m, ws4)"
    by (rule slice_with_prusa_Some)
  have t1: "0 \<le> total_weight_g m1"
    using slice_with_supports_weight [OF s1] by (simp add: initial_metrics_def)
  have t2: "0 \<le> object_weight_g m2" "total_weight_g m2 = total_weight_g m1"
    using slice_without_supports_weight [OF s2] by simp_all
  note c = calculations_weights [OF s3]
  note p = pricing_keeps_weights [OF s4]
  show "0 \<le> object_weight_g m" using c p t2 by simp
  show "0 \<le> total_weight_g m \<and>
        supports_weight_g m = max 0 (total_weight_g m - object_weight_g m)"
    if "cfg_truthy (supports_enabled e)"
    using that c p t1 t2 by simp
  show "total_weight_g m = object_weight_g m \<and> supports_weight_g m = 0"
    if "\<not> cfg_truthy (supports_enabled e)"
    using that c p by simp
qed

lemma record_iff_no_fatal: "ret (slice_with_prusa e) \<noteq> None \<longleftrightarrow> no_fatal e"
  by (cases "run_with e"; cases "run_without e")
     (auto simp: slice_with_prusa_def no_fatal_def setup_ok_def failed_def persist_def
        slice_with_supports_def slice_without_supports_def
        split: prod.splits)

lemma slice_with_supports_Inl:
  "slice_with_supports e m = Inl ms \<Longrightarrow> \<exists>x. ms = [x] \<and> is_error x"
  by (auto simp: slice_with_supports_def split: if_splits run_result.splits prod.splits)

lemma slice_without_supports_Inl:
  "slice_without_supports e m = Inl ms \<Longrightarrow> \<exists>x. ms = [x] \<and> is_error x"
  by (auto simp: slice_without_supports_def split: if_splits run_result.splits prod.splits)

lemma failed_run:
  assumes "\<not> no_fatal e"
  shows "\<exists>ms x. slice_with_prusa e = failed (ms @ [x]) \<and> is_error x"
proof -
  have none: "ret (slice_with_prusa e) = None"
    using assms record_iff_no_fatal [of e] by simp
  show ?thesis
  proof (cases "setup_ok e")
    case False
    then have "slice_with_prusa e = failed ([] @ [ErrFileNotFound]) \<or>
               slice_with_prusa e = failed ([] @ [ErrException]) \<or>
               slice_with_prusa e = failed ([] @ [ErrConfigNotFound])"
      by (auto simp: slice_with_prusa_def setup_ok_def)
    then show ?thesis by (metis is_error.simps(1,2,5))
  next
    case True
    note ok = True [unfolded setup_ok_def]
    show ?thesis
    proof (cases "slice_with_supports e (initial_metrics e)")
      case (Inl ms)
      then obtain x where "ms = [] @ [x]" "is_error x"
        using slice_with_supports_Inl by fastforce
      moreover have "slice_with_prusa e = failed ms"
        using ok Inl by (simp add: slice_with_prusa_def)
      ultimately show ?thesis by blast
    next
      case (Inr p)
      obtain m1 ws1 where p: "p = (m1, ws1)" by (cases p)
      show ?thesis
      proof (cases "slice_without_supports e m1")
        case (Inl ms)
        then obtain x where "ms = [x]" "is_error x"
          using slice_without_supports_Inl by blast
        moreover have "slice_with_prusa e = failed (ws1 @ ms)"
          using ok Inr p Inl by (simp add: slice_with_prusa_def)
        ultimately show ?thesis by blast
      next
        case r2: (Inr q)
        have "ret (slice_with_prusa e) \<noteq> None"
          using ok Inr p r2
          by (auto simp: slice_with_prusa_def persist_def split: prod.splits)
        with none show ?thesis by simp
      qed
    qed
  qed
qed









text \<open>The equations that evaluate a run on a concrete environment.\<close>

lemmas extractor_defs =
  slice_with_prusa_def slice_with_supports_def slice_without_supports_def calculations_def
  pricing_def persist_def failed_def initial_metrics_def extract_metrics_def gcode_parsing_def
  metrics_init_def apply_time_def group_int_def float_of_match_def env_of_def io_weight_def
  io_no_gcode_def setup_ok_def no_fatal_def no_weight_def
  py_round1_def round_half_even_def Let_def

subsection \<open>Price\<close>




subsection \<open>Weights\<close>




text \<open>
  C5. With supports enabled and both slicer runs exiting with code 0, let \<open>wt\<close> be the
  weight extracted from the with-supports run and \<open>wo\<close> the weight extracted from the
  no-supports run. Both are non-negative, they are the recorded total and object weights,
  and the recorded \<open>supports_weight_g\<close> is \<open>wt - wo\<close> when \<open>wo \<le> wt\<close> and \<open>0\<close> when
  \<open>wt < wo\<close>.
\<close>

theorem supports_weight_by_subtraction:
  assumes "setup_ok e" and "cfg_truthy (supports_enabled e)"
    and "run_with e = RunExit 0 io_t" and "run_without e = RunExit 0 io_o"
    and "wt = em_weight_g (fst (extract_metrics io_t))"
    and "wo = em_weight_g (fst (extract_metrics io_o))"
  shows "\<exists>m. ret (slice_with_prusa e) = Some m \<and>
           total_weight_g m = wt \<and> object_weight_g m = wo \<and> 0 \<le> wt \<and> 0 \<le> wo \<and>
           (wo \<le> wt \<longrightarrow> supports_weight_g m = wt - wo) \<and>
           (wt < wo \<longrightarrow> supports_weight_g m = 0)"
proof -
  obtain xt lt where xt: "extract_metrics io_t = (xt, lt)" by (cases "extract_metrics io_t")
  obtain xo lo where xo: "extract_metrics io_o = (xo, lo)" by (cases "extract_metrics io_o")
  have "no_fatal e" using assms(1-4) by (simp add: no_fatal_def)
  then obtain m where m: "ret (slice_with_prusa e) = Some m"
    using record_iff_no_fatal [of e] by auto
  from m obtain m1 ws1 m2 ws2 m3 ws3 ws4 where
    s1: "slice_with_supports e (initial_metrics e) = Inr (m1, ws1)" and
    s2: "slice_without_supports e m1 = Inr (m2, ws2)" and
    s3: "calculations e m2 = (m3, ws3)" and
    s4: "pricing e m3 = (m, ws4)"
    by (rule slice_with_prusa_Some)
  have "total_weight_g m1 = wt"
    using s1 assms(2,3,5) xt by (auto simp: slice_with_supports_def)
  moreover have "total_weight_g m2 = total_weight_g m1" "object_weight_g m2 = wo"
    using s2 assms(4,6) xo by (auto simp: slice_without_supports_def)
  moreover note calculations_weights [OF s3] pricing_keeps_weights [OF s4]
  ultimately have w: "total_weight_g m = wt" "object_weight_g m = wo"
    using assms(2) by simp_all
  from recorded_weights [OF m] assms(2) w
  have "0 \<le> wo" "0 \<le> wt" "supports_weight_g m = max 0 (wt - wo)" by simp_all
  with m w show ?thesis by (auto simp: max_def)
qed

theorem supports_weight_by_subtraction_witness:
  "setup_ok env_supports \<and> cfg_truthy (supports_enabled env_supports) \<and>
   total_weight_g (the (ret (slice_with_prusa env_supports))) = 25 / 2 \<and>
   object_weight_g (the (ret (slice_with_prusa env_supports))) = 10 \<and>
   supports_weight_g (the (ret (slice_with_prusa env_supports))) = 25 / 2 - 10 \<and>
   setup_ok env_clamp \<and> cfg_truthy (supports_enabled env_clamp) \<and>
   total_weight_g (the (ret (slice_with_prusa env_clamp))) = 5 \<and>
   object_weight_g (the (ret (slice_with_prusa env_clamp))) = 6 \<and>
   supports_weight_g (the (ret (slice_with_prusa env_clamp))) = 0"
proof -
  have a: "setup_ok env_supports" "cfg_truthy (supports_enabled env_supports)"
    "run_with env_supports = RunExit 0 (io_weight (Some (125, 1)))"
    "run_without env_supports = RunExit 0 (io_weight (Some (10, 0)))"
    "25 / 2 = em_weight_g (fst (extract_metrics (io_weight (Some (125, 1)))))"
    "10 = em_weight_g (fst (extract_metrics (io_weight (Some (10, 0)))))"
    by (simp_all add: env_supports_def extractor_defs)
  have b: "setup_ok env_clamp" "cfg_truthy (supports_enabled env_clamp)"
    "run_with env_clamp = RunExit 0 (io_weight (Some (50, 1)))"
    "run_without env_clamp = RunExit 0 (io_weight (Some (60, 1)))"
    "5 = em_weight_g (fst (extract_metrics (io_weight (Some (50, 1)))))"
    "6 = em_weight_g (fst (extract_metrics (io_weight (Some (60, 1)))))"
    by (simp_all add: env_clamp_def extractor_defs)
  show ?thesis
    using supports_weight_by_subtraction [OF a] supports_weight_by_subtraction [OF b] a(1,2) b(1,2)
    by auto
qed

subsection \<open>Failed and missing extraction\<close>




text \<open>
  C9. If the geometry file does not exist, or the configuration file is missing, or the
  with-supports slicer run (made when supports are enabled) exits non-zero, or the
  no-supports slicer run exits non-zero, then \<open>slice_with_prusa\<close> returns \<open>None\<close>, writes
  no stats file, and the last message it prints is an error.
\<close>

theorem fatal_conditions:
  assumes "\<not> step_exists e \<or> \<not> config_exists e \<or>
           (cfg_truthy (supports_enabled e) \<and> run_with e = RunExit rc io \<and> rc \<noteq> 0) \<or>
           (run_without e = RunExit rc io \<and> rc \<noteq> 0)"
  shows "ret (slice_with_prusa e) = None \<and> stats_file (slice_with_prusa e) = None \<and>
         printed (slice_with_prusa e) \<noteq> [] \<and> is_error (last (printed (slice_with_prusa e)))"
proof -
  have "\<not> no_fatal e"
    using assms by (auto simp: no_fatal_def setup_ok_def)
  then obtain ms x where "slice_with_prusa e = failed (ms @ [x])" "is_error x"
    using failed_run by blast
  then show ?thesis by (simp add: failed_def)
qed

theorem fatal_conditions_witness:
  "run_without env_slicer_fails = RunExit 1 (io_weight (Some (10, 0))) \<and>
   ret (slice_with_prusa env_slicer_fails) = None \<and>
   stats_file (slice_with_prusa env_slicer_fails) = None \<and>
   is_error (last (printed (slice_with_prusa env_slicer_fails)))"
proof -
  have a: "run_without env_slicer_fails = RunExit 1 (io_weight (Some (10, 0)))"
    by (simp add: env_slicer_fails_def env_of_def)
  have "\<not> step_exists env_slicer_fails \<or> \<not> config_exists env_slicer_fails \<or>
        (cfg_truthy (supports_enabled env_slicer_fails) \<and>
         run_with env_slicer_fails = RunExit 1 (io_weight (Some (10, 0))) \<and> (1::int) \<noteq> 0) \<or>
        (run_without env_slicer_fails = RunExit 1 (io_weight (Some (10, 0))) \<and> (1::int) \<noteq> 0)"
    using a by simp
  from fatal_conditions [OF this] a show ?thesis by simp
qed

text \<open>
  C10. When the G-code file exists and holds no weight comment, the print time returned by
  \<open>extract_metrics\<close> is what the console-output pattern gives, or \<open>Unknown\<close>; the time
  match in the G-code plays no part. The weight is \<open>0.0\<close> and the parse warning is printed.
\<close>

theorem gcode_time_needs_weight:
  assumes "gcode_exists io" and "weight_match io = None"
  shows "em_print_time (fst (extract_metrics io)) =
           (case time_match_output io of
              None \<Rightarrow> ''Unknown''
            | Some (gh, gm, gs) \<Rightarrow>
                if 0 < group_int gh \<or> 0 < group_int gm \<or> 0 < group_int gs
                then join_space (time_parts (group_int gh) (group_int gm) (group_int gs))
                else ''Unknown'') \<and>
         em_weight_g (fst (extract_metrics io)) = 0 \<and>
         WarnGcodeParse \<in> set (snd (extract_metrics io))"
  using assms
  by (auto simp: extract_metrics_def gcode_parsing_def metrics_init_def apply_time_def Let_def
      split: option.splits prod.splits)

theorem gcode_time_needs_weight_witness:
  "gcode_exists io_time_only \<and> weight_match io_time_only = None \<and>
   time_match_gcode io_time_only = Some (Some 2, Some 15, None) \<and>
   em_print_time (fst (extract_metrics io_time_only)) = ''Unknown''"
proof -
  have a: "gcode_exists io_time_only" "weight_match io_time_only = None"
    by (simp_all add: io_time_only_def)
  have b: "time_match_output io_time_only = None"
    "time_match_gcode io_time_only = Some (Some 2, Some 15, None)"
    by (simp_all add: io_time_only_def)
  show ?thesis using gcode_time_needs_weight [OF a] a b by simp
qed

section \<open>Properties of the aggregator\<close>

subsection \<open>Sorting lemmas\<close>








subsection \<open>Loop lemmas\<close>

lemmas bom_defs =
  generate_bom_def stats_files_def write_reports_def generate_csv_bom_def pdf_generated_def
  bom_failed_def agg_init_def warn_def add_totals_def required_keys_def or_zero_def
  sort_parts_def sort_key_of_def make_row_def float_field_def text_field_def
  candidates_def survivors_def part_def array_document_def env_for_def
  bad_price_part_def part_a_def part_b_def bad_weight_part_def env_bad_weight_def Let_def

lemmas bom_examples =
  env_two_parts_def env_no_bom_dir_def env_array_def env_one_part_def env_bad_price_def
  env_names_def unnamed_part_def

lemma parts_data_add_totals: "parts_data (add_totals B m st) = parts_data st"
  by (auto simp: add_totals_def warn_def Let_def split: sum.splits)

lemma parts_data_process_file: "parts_data (process_file B st f) = parts_data st @ kept [f]"
  by (cases f) (auto simp: warn_def parts_data_add_totals split: sum.splits bool.splits)

lemma kept_Cons: "kept (f # fs) = kept [f] @ kept fs"
  by (cases f) simp_all

lemma parts_data_process_files:
  "parts_data (process_files B st fs) = parts_data st @ kept fs"
proof (induction fs arbitrary: st)
  case Nil
  then show ?case by simp
next
  case (Cons f fs)
  then show ?case
    using kept_Cons [of f fs] by (simp add: parts_data_process_file)
qed

lemma add_totals_converts:
  "converts B m \<Longrightarrow>
     total_cost (add_totals B m st) = total_cost st + price_of B m \<and>
     total_weight (add_totals B m st) = total_weight st + weight_of B m"
  by (auto simp: add_totals_def converts_def price_of_def weight_of_def float_field_def Let_def
      split: sum.splits)

lemma totals_process_file:
  "\<forall>m \<in> set (kept [f]). converts B m \<Longrightarrow>
     total_cost (process_file B st f) = total_cost st + sum_list (map (price_of B) (kept [f])) \<and>
     total_weight (process_file B st f) = total_weight st + sum_list (map (weight_of B) (kept [f]))"
  by (cases f) (auto simp: warn_def add_totals_converts split: sum.splits bool.splits)

lemma totals_process_files:
  "\<forall>m \<in> set (kept fs). converts B m \<Longrightarrow>
     total_cost (process_files B st fs) = total_cost st + sum_list (map (price_of B) (kept fs)) \<and>
     total_weight (process_files B st fs) = total_weight st + sum_list (map (weight_of B) (kept fs))"
proof (induction fs arbitrary: st)
  case Nil
  then show ?case by simp
next
  case (Cons f fs)
  have k: "kept (f # fs) = kept [f] @ kept fs" by (rule kept_Cons)
  have a: "\<forall>m \<in> set (kept [f]). converts B m" and b: "\<forall>m \<in> set (kept fs). converts B m"
    using Cons.prems k by auto
  show ?case
    using Cons.IH [OF b, of "process_file B st f"] totals_process_file [OF a, of st] k
    by simp
qed

lemma candidates_empty: "candidates e = [] \<longleftrightarrow> isl (stats_files (bom_input_path e))"
  by (auto simp: candidates_def stats_files_def split: bom_input.splits)


lemma all_in_object:
  "all_in required_keys (JObj kvs) =
     Inr (''part_name'' \<in> fst ` set kvs \<and> ''total_weight_g'' \<in> fst ` set kvs \<and>
          ''price_egp'' \<in> fst ` set kvs)"
  by (simp add: required_keys_def split: bool.splits)

subsection \<open>The value returned by generate\_bom\<close>

text \<open>
  C3 (as amended). \<open>generate_bom\<close> returns \<open>None\<close> exactly when no candidate file was
  found, or no document survived the loop, or sorting the survivors raised, or the output
  folder is missing and cannot be created. In every other case it returns the CSV path
  together with the PDF path, the latter \<open>None\<close> when no PDF was generated.
\<close>

theorem generate_bom_result:
  "(bom_result (generate_bom B e) = None \<longleftrightarrow>
      candidates e = [] \<or> survivors B e = [] \<or> isl (sort_parts B (survivors B e)) \<or>
      (\<not> bom_dir_exists e \<and> \<not> makedirs_ok e)) \<and>
   (bom_result (generate_bom B e) \<noteq> None \<longrightarrow>
      bom_result (generate_bom B e) =
        Some ((bom_dir e, bom_base_name e @ ''.csv''),
              if pdf_generated B e (bom_parts (generate_bom B e))
              then Some (bom_dir e, bom_base_name e @ ''.pdf'') else None))"
proof (cases "stats_files (bom_input_path e)")
  case (Inl w)
  then have "candidates e = []" using candidates_empty [of e] by simp
  moreover have "bom_result (generate_bom B e) = None"
    using Inl by (simp add: generate_bom_def bom_failed_def)
  ultimately show ?thesis by simp
next
  case (Inr fs)
  then have c: "candidates e = fs" "fs \<noteq> []"
    using candidates_empty [of e] by (auto simp: candidates_def)
  have s: "survivors B e = parts_data (process_files B agg_init fs)"
    using c by (simp add: survivors_def)
  show ?thesis
    using Inr c s
    by (cases "sort_parts B (parts_data (process_files B agg_init fs))")
       (auto simp: generate_bom_def bom_failed_def write_reports_def Let_def split: prod.splits)
qed

theorem generate_bom_result_witness:
  "bom_result (generate_bom example_builtins env_two_parts)
     = Some ((''stats/BOM'', ''BOM_stats_20250101_120000.csv''), None) \<and>
   candidates env_two_parts \<noteq> [] \<and> survivors example_builtins env_two_parts \<noteq> [] \<and>
   bom_dir_exists env_two_parts"
proof -
  have a: "bom_result (generate_bom example_builtins env_two_parts) \<noteq> None"
    by (simp add: bom_examples bom_defs)
  have b: "bom_dir env_two_parts = ''stats/BOM''"
    "bom_base_name env_two_parts = ''BOM_stats_20250101_120000''"
    "\<not> pdf_generated example_builtins env_two_parts
         (bom_parts (generate_bom example_builtins env_two_parts))"
    "bom_dir_exists env_two_parts"
    by (simp_all add: bom_examples bom_defs)
  show ?thesis
    using generate_bom_result [of example_builtins env_two_parts] a b by simp
qed

text \<open>
  C3 as stated fails: one valid record is found, the output folder does not exist and
  cannot be created, and the function returns \<open>None\<close>.
\<close>

theorem bom_dir_counterexample:
  "bom_result (generate_bom example_builtins env_no_bom_dir) = None \<and>
   candidates env_no_bom_dir = [Parsed part_a] \<and>
   survivors example_builtins env_no_bom_dir = [part_a]"
  by (simp add: bom_examples bom_defs)

subsection \<open>Skipped and kept files\<close>

text \<open>
  C4, the code at two inputs. A candidate file holding the JSON array of the three key
  names has none of the required fields, yet \<open>k in metrics\<close> is list membership, so it is
  appended to \<open>parts_data\<close>; the sort then raises and \<open>generate_bom\<close> returns \<open>None\<close>,
  although the other file alone yields a report. A record whose weight is not convertible
  is kept in \<open>parts_data\<close> with a warning, and the CSV writer then raises on its row: the
  file holds neither the row nor the summary.
\<close>

theorem array_document_not_skipped:
  "all_in required_keys array_document = Inr True \<and>
   parts_data (process_files B agg_init [Parsed array_document, Parsed part_a])
     = [array_document, part_a] \<and>
   bom_result (generate_bom B env_array) = None \<and>
   bom_result (generate_bom B env_one_part) \<noteq> None \<and>
   parts_data (process_files B agg_init [Parsed bad_weight_part]) = [bad_weight_part] \<and>
   warnings (process_files B agg_init [Parsed bad_weight_part]) = [WarnInvalidNumeric] \<and>
   bom_result (generate_bom B env_bad_weight) \<noteq> None \<and>
   bom_csv (generate_bom B env_bad_weight) = Some \<lparr>csv_rows = [], csv_summary = None\<rparr>"
  by (simp add: bom_examples bom_defs bad_weight_part_def env_bad_weight_def)

text \<open>
  What does hold of the loop: a dictionary is kept exactly when it has the three keys, a
  file that cannot be read or decoded is not kept and costs one warning, and
  \<open>parts_data\<close> grows by the kept documents in order.
\<close>

theorem object_files_kept_or_skipped:
  "kept [Parsed (JObj kvs)] =
     (if ''part_name'' \<in> fst ` set kvs \<and> ''total_weight_g'' \<in> fst ` set kvs \<and>
         ''price_egp'' \<in> fst ` set kvs then [JObj kvs] else []) \<and>
   kept [InvalidJson] = [] \<and> kept [Unreadable] = [] \<and> kept [Undecodable] = [] \<and>
   parts_data (process_files B st fs) = parts_data st @ kept fs \<and>
   length (warnings (process_file B st InvalidJson)) = Suc (length (warnings st))"
  using parts_data_process_files [of B st fs]
  by (simp add: all_in_object warn_def)

subsection \<open>Totals\<close>



text \<open>
  When the price and the weight of every kept document convert, the totals are the sums
  over the kept documents, a missing or null value counting as 0.
\<close>

theorem totals_are_sums:
  assumes "\<forall>m \<in> set (kept fs). converts B m"
  shows "parts_data (process_files B agg_init fs) = kept fs \<and>
         total_cost (process_files B agg_init fs) = sum_list (map (price_of B) (kept fs)) \<and>
         total_weight (process_files B agg_init fs) = sum_list (map (weight_of B) (kept fs))"
  using totals_process_files [OF assms, of agg_init] parts_data_process_files [of B agg_init fs]
  by (simp add: agg_init_def)

theorem totals_are_sums_witness:
  "converts example_builtins part_a \<and> converts example_builtins part_b \<and>
   parts_data (process_files example_builtins agg_init [Parsed part_a, Parsed part_b])
     = [part_a, part_b] \<and>
   total_cost (process_files example_builtins agg_init [Parsed part_a, Parsed part_b]) = 75 / 2 \<and>
   total_weight (process_files example_builtins agg_init [Parsed part_a, Parsed part_b]) = 150"
proof -
  have c: "converts example_builtins part_a" "converts example_builtins part_b"
    by (simp_all add: converts_def bom_defs)
  have k: "kept [Parsed part_a, Parsed part_b] = [part_a, part_b]"
    by (simp add: bom_defs)
  have h: "\<forall>m \<in> set (kept [Parsed part_a, Parsed part_b]). converts example_builtins m"
    using c k by simp
  have v: "price_of example_builtins part_a = 25" "price_of example_builtins part_b = 25 / 2"
    "weight_of example_builtins part_a = 100" "weight_of example_builtins part_b = 50"
    by (simp_all add: price_of_def weight_of_def bom_defs)
  show ?thesis using totals_are_sums [OF h] c k v by simp
qed

subsection \<open>Order of the report\<close>



end
